theory Spec2Isabelle
  imports Complex_Main "HOL-Library.AList" "HOL-Library.Sublist"
begin

section \<open>Values, errors and dictionaries\<close>

text \<open>
  Metadata values are Python objects (\<open>Dict[str, Any]\<close>). The chunker stores integers,
  the loader stores strings; both are immutable values.
\<close>

datatype pyval = PyInt int | PyStr string | PyNone

text \<open>
  A Python \<open>dict\<close> keeps its keys in insertion order and holds each key once: an
  association list, where storing under an existing key replaces the value in place and
  a new key goes to the end.
\<close>

type_synonym dict = "(string \<times> pyval) list"

text \<open>
  The exceptions the code raises. \<open>ConnectionError\<close> is what the connector raises when it
  has no client (the spec's NotConnected); \<open>ValueError\<close> is what \<open>search_similar\<close> raises on
  a query of the wrong width (the spec's DimensionMismatch); \<open>AttributeError\<close> is Python's
  error for reading an attribute an object does not have; \<open>KeyError\<close> is a missing
  dictionary key, \<open>TypeError\<close> a call of something that is not the function expected.
  \<open>InvalidConfiguration\<close>, \<open>ValidationError\<close> and \<open>EngineFailure\<close> are errors of the two
  libraries the code calls (the text splitter and the vector engine), named as the spec
  names them.
\<close>

datatype error =
    InvalidConfiguration
  | ValidationError
  | ConnectionError string
  | AttributeError string
  | TypeError string
  | KeyError string
  | ValueError string
  | EngineFailure string

definition dict_setitem :: "dict \<Rightarrow> string \<Rightarrow> pyval \<Rightarrow> dict" where
  "dict_setitem d k v = AList.update k v d"

definition dict_update :: "dict \<Rightarrow> dict \<Rightarrow> dict" where
  "dict_update d other = fold (\<lambda>(k, v) acc. dict_setitem acc k v) other d"

definition dict_get :: "dict \<Rightarrow> string \<Rightarrow> pyval option" where
  "dict_get d k = map_of d k"

section \<open>Document (core/document.py)\<close>

record Document =
  content :: string
  metadata :: dict
  doc_id :: "string option"

section \<open>Strings\<close>

text \<open>\<open>len\<close>, the default \<open>length_function\<close> of the chunker.\<close>

definition len :: "string \<Rightarrow> int" where
  "len s = int (length s)"

text \<open>\<open>s.find(sub)\<close>: the index of the first occurrence of \<open>sub\<close> in \<open>s\<close>, or -1.\<close>

fun find_from :: "string \<Rightarrow> string \<Rightarrow> int \<Rightarrow> int" where
  "find_from sub [] i = (if sub = [] then i else - 1)"
| "find_from sub (c # cs) i = (if prefix sub (c # cs) then i else find_from sub cs (i + 1))"

definition str_find :: "string \<Rightarrow> string \<Rightarrow> int" where
  "str_find s sub = find_from sub s 0"

text \<open>\<open>str(i)\<close> for a non-negative integer, as the f-string of the chunk id formats it.\<close>

definition digit_char :: "nat \<Rightarrow> char" where
  "digit_char d = ''0123456789'' ! d"

function string_of_nat :: "nat \<Rightarrow> string" where
  "string_of_nat n =
     (if n < 10 then [digit_char n] else string_of_nat (n div 10) @ [digit_char (n mod 10)])"
  by pat_completeness auto
termination
  by (relation "measure id") auto

text \<open>\<open>sep.join(parts)\<close>.\<close>

fun join :: "string \<Rightarrow> string list \<Rightarrow> string" where
  "join sep [] = []"
| "join sep [x] = x"
| "join sep (x # y # ys) = x @ sep @ join sep (y # ys)"

section \<open>The text splitter the chunker drives\<close>

text \<open>
  \<open>TextChunker\<close> holds a \<open>CharacterTextSplitter\<close> of the langchain library, built in
  \<open>__init__\<close> from \<open>separator\<close>, \<open>chunk_size\<close>, \<open>chunk_overlap\<close> and \<open>length_function\<close>.
  The library's class keeps the constructor's \<open>chunk_size\<close> and \<open>chunk_overlap\<close> in the
  attributes \<open>_chunk_size\<close> and \<open>_chunk_overlap\<close> (\<open>private_chunk_size\<close> and
  \<open>private_chunk_overlap\<close> below), and its \<open>split_text\<close> reads those. An object fresh
  from the constructor has no attribute named \<open>chunk_size\<close> or \<open>chunk_overlap\<close>: the
  assignments of lines 60-63 of \<open>create_chunks\<close> create them (\<open>None\<close> below stands for an
  attribute the object does not have).
\<close>

record CharacterTextSplitter =
  separator :: string
  private_chunk_size :: int
  private_chunk_overlap :: int
  length_function :: "string \<Rightarrow> int"
  chunk_size :: "int option"
  chunk_overlap :: "int option"

text \<open>The object that a constructor call returns when it does not raise.\<close>

definition CharacterTextSplitter_new ::
  "string \<Rightarrow> int \<Rightarrow> int \<Rightarrow> (string \<Rightarrow> int) \<Rightarrow> CharacterTextSplitter" where
  "CharacterTextSplitter_new sep sz overlap lf =
     \<lparr>separator = sep, private_chunk_size = sz, private_chunk_overlap = overlap,
      length_function = lf, chunk_size = None, chunk_overlap = None\<rparr>"

text \<open>
  Modelled from the spec: \<open>split_text\<close> of the splitter class is library code and is not
  among the repository's files. The spec (4.2, algorithm step 1): partition the content
  on the separator into an ordered sequence of segments, empty segments dropped. An
  empty separator never matches, so the content stays whole.
\<close>

fun split_on :: "string \<Rightarrow> string \<Rightarrow> string \<Rightarrow> string list" where
  "split_on sep acc [] = [rev acc]"
| "split_on sep acc (c # cs) =
     (if sep \<noteq> [] \<and> prefix sep (c # cs)
      then rev acc # split_on sep [] (drop (length sep - 1) cs)
      else split_on sep (c # acc) cs)"

definition segments :: "string \<Rightarrow> string \<Rightarrow> string list" where
  "segments sep text = filter (\<lambda>s. s \<noteq> []) (split_on sep [] text)"

text \<open>
  Modelled from the spec: the length of a run of segments is the length, by the
  configured length function, of the segments joined by the separator (4.2, step 2:
  "the cumulative length (joined by separator)").
\<close>

definition joined_length :: "CharacterTextSplitter \<Rightarrow> string list \<Rightarrow> int" where
  "joined_length cfg segs = length_function cfg (join (separator cfg) segs)"

text \<open>
  Modelled from the spec: step 3, the next chunk starts from trailing segments of the
  chunk just closed. Leading segments are dropped until what is carried over is at most
  \<open>chunk_overlap\<close> long and leaves room for the next segment within \<open>chunk_size\<close>
  (step 2); nothing is carried when no tail fits.
\<close>

fun carry_back :: "CharacterTextSplitter \<Rightarrow> string list \<Rightarrow> string \<Rightarrow> string list" where
  "carry_back cfg [] d = []"
| "carry_back cfg (s # ss) d =
     (if joined_length cfg (s # ss) > private_chunk_overlap cfg
         \<or> joined_length cfg ((s # ss) @ [d]) > private_chunk_size cfg
      then carry_back cfg ss d
      else s # ss)"

text \<open>
  Modelled from the spec: steps 2, 4 and 5. Segments are accumulated greedily while the
  joined length stays at most \<open>chunk_size\<close>; when the next segment would exceed it, the
  current chunk is closed and the next one starts from the carried tail. A single
  segment longer than \<open>chunk_size\<close> becomes a chunk of its own, unsplit. The work stops
  when all segments are consumed.
\<close>

fun merge_segments :: "CharacterTextSplitter \<Rightarrow> string list \<Rightarrow> string list \<Rightarrow> string list" where
  "merge_segments cfg [] cur = (if cur = [] then [] else [join (separator cfg) cur])"
| "merge_segments cfg (d # ds) cur =
     (if cur \<noteq> [] \<and> joined_length cfg (cur @ [d]) > private_chunk_size cfg
      then join (separator cfg) cur # merge_segments cfg ds (carry_back cfg cur d @ [d])
      else merge_segments cfg ds (cur @ [d]))"

definition split_text :: "CharacterTextSplitter \<Rightarrow> string \<Rightarrow> error + string list" where
  "split_text cfg text = Inr (merge_segments cfg (segments (separator cfg) text) [])"

text \<open>
  A split function that reads what the constructor stored in the splitter object and
  none of the attributes \<open>chunk_size\<close> and \<open>chunk_overlap\<close>, as the library's does.
\<close>

definition ignores_public_attributes ::
  "(CharacterTextSplitter \<Rightarrow> string \<Rightarrow> error + string list) \<Rightarrow> bool" where
  "ignores_public_attributes f =
     (\<forall>s a b. f (s\<lparr>chunk_size := a, chunk_overlap := b\<rparr>) = f s)"

section \<open>TextChunker (chunker/text_chunker.py)\<close>

record TextChunker =
  text_splitter :: CharacterTextSplitter
  add_start_index :: bool

text \<open>
  \<open>__init__\<close>: calls the splitter's constructor with the four values and stores the
  object and the flag; an exception of the constructor propagates. The constructor is
  the library's and is a parameter here. (Logging is not modelled anywhere.)
\<close>

definition TextChunker_init ::
  "(string \<Rightarrow> int \<Rightarrow> int \<Rightarrow> (string \<Rightarrow> int) \<Rightarrow> error + CharacterTextSplitter) \<Rightarrow>
   int \<Rightarrow> int \<Rightarrow> string \<Rightarrow> (string \<Rightarrow> int) \<Rightarrow> bool \<Rightarrow> error + TextChunker" where
  "TextChunker_init constructor sz overlap sep lf start_index =
     (case constructor sep sz overlap lf of
        Inl e \<Rightarrow> Inl e
      | Inr sp \<Rightarrow> Inr \<lparr>text_splitter = sp, add_start_index = start_index\<rparr>)"

text \<open>
  The body of the loop of \<open>create_chunks\<close> for chunk \<open>i\<close> with text \<open>chunk_text\<close>:
  the parent's metadata copied, \<open>chunk_index\<close> and \<open>total_chunks\<close> stored by \<open>update\<close>,
  \<open>chunk_start_index\<close> stored when the flag is set, and the chunk's id derived from the
  parent's when that is truthy (neither \<open>None\<close> nor the empty string).
\<close>

definition chunk_document :: "TextChunker \<Rightarrow> Document \<Rightarrow> nat \<Rightarrow> nat \<times> string \<Rightarrow> Document" where
  "chunk_document self document n_chunks ic =
     (let i = fst ic; chunk_text = snd ic;
          copied = metadata document;
          updated = dict_update copied
            [(''chunk_index'', PyInt (int i)), (''total_chunks'', PyInt (int n_chunks))];
          chunk_metadata =
            (if add_start_index self
             then dict_setitem updated ''chunk_start_index''
                    (PyInt (str_find (content document) chunk_text))
             else updated)
      in \<lparr>content = chunk_text,
          metadata = chunk_metadata,
          doc_id = (case doc_id document of
                      None \<Rightarrow> None
                    | Some parent \<Rightarrow>
                        if parent = [] then None
                        else Some (parent @ ''_chunk_'' @ string_of_nat i))\<rparr>)"

text \<open>
  Lines 60-63 of \<open>create_chunks\<close>: an argument that is not \<open>None\<close> is assigned to the
  attribute \<open>chunk_size\<close> (\<open>chunk_overlap\<close>) of the chunker's own splitter object.
\<close>

definition assign_overrides ::
  "CharacterTextSplitter \<Rightarrow> int option \<Rightarrow> int option \<Rightarrow> CharacterTextSplitter" where
  "assign_overrides splitter size_arg overlap_arg =
     (let sp1 = (case size_arg of
                   None \<Rightarrow> splitter
                 | Some v \<Rightarrow> splitter\<lparr>chunk_size := Some v\<rparr>)
      in case overlap_arg of
           None \<Rightarrow> sp1
         | Some v \<Rightarrow> sp1\<lparr>chunk_overlap := Some v\<rparr>)"

text \<open>
  \<open>create_chunks\<close>. The chunker object is state: the call returns it as it is afterwards.
  The splitter's \<open>split_text\<close> is a parameter (\<open>splitter_split_text\<close>); it is called on
  the splitter object as the assignments of lines 60-63 left it. An exception is logged
  and raised again, after the assignments.
\<close>

definition create_chunks ::
  "(CharacterTextSplitter \<Rightarrow> string \<Rightarrow> error + string list) \<Rightarrow>
   TextChunker \<Rightarrow> Document \<Rightarrow> int option \<Rightarrow> int option \<Rightarrow>
   (error + Document list) \<times> TextChunker" where
  "create_chunks splitter_split_text self document size_arg overlap_arg =
     (let self' = self\<lparr>text_splitter :=
                        assign_overrides (text_splitter self) size_arg overlap_arg\<rparr>
      in case splitter_split_text (text_splitter self') (content document) of
           Inl e \<Rightarrow> (Inl e, self')
         | Inr chunk_texts \<Rightarrow>
             (Inr (map (chunk_document self' document (length chunk_texts))
                       (enumerate 0 chunk_texts)),
              self'))"

text \<open>Projections of a result: the chunk texts, and the value of one metadata key per chunk.\<close>

definition chunk_texts :: "error + Document list \<Rightarrow> error + string list" where
  "chunk_texts result = map_sum id (map content) result"

definition chunk_values :: "string \<Rightarrow> error + Document list \<Rightarrow> error + pyval option list" where
  "chunk_values key result = map_sum id (map (\<lambda>c. dict_get (metadata c) key)) result"

section \<open>The vector engine the connector drives\<close>

text \<open>
  The connector calls a chromadb client: \<open>list_collections\<close>, \<open>create_collection\<close>,
  \<open>delete_collection\<close>, \<open>get_or_create_collection\<close>, and on a collection \<open>add\<close> and
  \<open>query\<close>. The engine's data is a list of named collections, each a list of records.
  Embedding components are Python floats, read here as reals.
\<close>

record chroma_record =
  rec_id :: string
  rec_embedding :: "real list"
  rec_document :: string
  rec_metadata :: dict

type_synonym chroma_db = "(string \<times> chroma_record list) list"

text \<open>
  The client object of the engine. Two things about it differ between versions of the
  library and are parameters of the client: which collection names it accepts
  (\<open>accepts_name\<close>), and whether \<open>list_collections\<close> yields the collections' names or
  Collection objects (\<open>lists_names\<close>).
\<close>

record chroma_client =
  client_path :: string
  accepts_name :: "string \<Rightarrow> bool"
  lists_names :: bool

text \<open>An element of the list that the engine's \<open>list_collections\<close> returns.\<close>

datatype listed = ListedName string | ListedCollection string

text \<open>
  Modelled from the spec: the engine's client is library code and is not among the
  repository's files. The spec (3, Collection): collections are listed by name. A
  client that lists Collection objects yields one object per collection instead.
\<close>

definition chroma_list_collections :: "chroma_client \<Rightarrow> chroma_db \<Rightarrow> listed list" where
  "chroma_list_collections c db =
     map (\<lambda>entry. if lists_names c then ListedName (fst entry)
                   else ListedCollection (fst entry)) db"

text \<open>
  Modelled from the spec: creating a collection makes an empty, independently
  addressable namespace (4.3). The engine refuses a name it does not accept, and a
  second collection of a name that exists; both are engine failures.
\<close>

definition chroma_create_collection ::
  "chroma_client \<Rightarrow> string \<Rightarrow> chroma_db \<Rightarrow> error + chroma_db" where
  "chroma_create_collection c name db =
     (if \<not> accepts_name c name then Inl (EngineFailure ''invalid collection name'')
      else if name \<in> set (map fst db)
      then Inl (EngineFailure ''collection already exists'')
      else Inr (db @ [(name, [])]))"

text \<open>
  Modelled from the spec: dropping removes the collection; dropping a collection that
  does not exist fails with EngineFailure (8, last scenario).
\<close>

definition chroma_delete_collection :: "string \<Rightarrow> chroma_db \<Rightarrow> error + chroma_db" where
  "chroma_delete_collection name db =
     (if name \<in> set (map fst db)
      then Inr (filter (\<lambda>entry. fst entry \<noteq> name) db)
      else Inl (EngineFailure ''collection does not exist''))"

text \<open>
  Modelled from the spec: collections are created on first write or by an explicit
  creation call (3, Collection). A new collection is created as by
  \<open>create_collection\<close>, so a name the engine does not accept is refused.
\<close>

definition chroma_get_or_create_collection ::
  "chroma_client \<Rightarrow> string \<Rightarrow> chroma_db \<Rightarrow> error + chroma_db" where
  "chroma_get_or_create_collection c name db =
     (if name \<in> set (map fst db) then Inr db
      else if \<not> accepts_name c name then Inl (EngineFailure ''invalid collection name'')
      else Inr (db @ [(name, [])]))"

text \<open>
  Modelled from the spec: the three sequences and the ids are parallel, position \<open>i\<close>
  describing one record, and a length mismatch is a ValidationError (4.3). The records
  are appended to the named collection.
\<close>

definition chroma_add ::
  "string \<Rightarrow> real list list \<Rightarrow> string list \<Rightarrow> dict list \<Rightarrow> string list \<Rightarrow> chroma_db
   \<Rightarrow> error + chroma_db" where
  "chroma_add name embeddings documents metadatas ids db =
     (if name \<notin> set (map fst db)
      then Inl (EngineFailure ''collection does not exist'')
      else if length embeddings \<noteq> length ids \<or> length documents \<noteq> length ids
              \<or> length metadatas \<noteq> length ids
      then Inl ValidationError
      else Inr (map (\<lambda>entry.
                  if fst entry = name
                  then (fst entry,
                        snd entry @
                          map (\<lambda>i. \<lparr>rec_id = ids ! i, rec_embedding = embeddings ! i,
                                     rec_document = documents ! i,
                                     rec_metadata = metadatas ! i\<rparr>)
                              [0..<length ids])
                  else entry) db))"

text \<open>
  Modelled from the spec: a query returns at most \<open>k\<close> records, nearest first (4.3:
  length at most k, ordered by descending similarity, similarity being 1 - distance),
  as parallel arrays of ids, distances and metadata (4.4). The distance is the squared
  Euclidean distance.
\<close>

definition chroma_distance :: "real list \<Rightarrow> real list \<Rightarrow> real" where
  "chroma_distance a b = sum_list (map (\<lambda>p. (fst p - snd p) ^ 2) (zip a b))"

definition chroma_query ::
  "string \<Rightarrow> real list \<Rightarrow> nat \<Rightarrow> chroma_db
   \<Rightarrow> error + (string list \<times> real list \<times> dict list)" where
  "chroma_query name query k db =
     (case map_of db name of
        None \<Rightarrow> Inl (EngineFailure ''collection does not exist'')
      | Some records \<Rightarrow>
          (let scored = map (\<lambda>r. (chroma_distance query (rec_embedding r), r)) records;
               top = take k (sort_key fst scored)
           in Inr (map (\<lambda>p. rec_id (snd p)) top, map fst top,
                   map (\<lambda>p. rec_metadata (snd p)) top)))"

section \<open>ChromaConnector (database/chroma_connector/connector.py)\<close>

datatype collection = Collection string

text \<open>
  The connector object has the attributes \<open>persist_directory\<close>, \<open>client\<close> and
  \<open>collections\<close> (\<open>__init__\<close>). \<open>database\<close> is the engine's data under the persist
  directory: the state the client's calls read and write, kept when the connector
  disconnects.
\<close>

record ChromaConnector =
  persist_directory :: string
  client :: "chroma_client option"
  collections :: "(string \<times> collection) list"
  database :: chroma_db

definition ChromaConnector_init :: "string \<Rightarrow> chroma_db \<Rightarrow> ChromaConnector" where
  "ChromaConnector_init directory db =
     \<lparr>persist_directory = directory, client = None, collections = [], database = db\<rparr>"

text \<open>
  \<open>connect\<close>: the engine's constructor either returns a client or raises; \<open>opened\<close> is
  the client it returns or the exception it raises. On an exception \<open>self.client\<close> is not
  assigned.
\<close>

definition connect ::
  "error + chroma_client \<Rightarrow> ChromaConnector \<Rightarrow> (error + unit) \<times> ChromaConnector" where
  "connect opened self =
     (case opened of
        Inl e \<Rightarrow> (Inl e, self)
      | Inr c \<Rightarrow> (Inr (), self\<lparr>client := Some c\<rparr>))"

definition disconnect :: "ChromaConnector \<Rightarrow> ChromaConnector" where
  "disconnect self = self\<lparr>client := None, collections := []\<rparr>"

definition not_connected :: error where
  "not_connected = ConnectionError ''Not connected to ChromaDB''"

text \<open>
  \<open>create_collection\<close>. The test \<open>collection_name in existing_collections\<close> compares the
  name, a string, with each element of the engine's list: it is equal to a listed name
  and to no Collection object.
\<close>

definition create_collection ::
  "ChromaConnector \<Rightarrow> string \<Rightarrow> (error + unit) \<times> ChromaConnector" where
  "create_collection self collection_name =
     (case client self of
        None \<Rightarrow> (Inl not_connected, self)
      | Some c \<Rightarrow>
          let existing_collections = chroma_list_collections c (database self)
          in if ListedName collection_name \<in> set existing_collections then (Inr (), self)
             else
               (case chroma_create_collection c collection_name (database self) of
                  Inl e \<Rightarrow> (Inl e, self)
                | Inr db \<Rightarrow>
                    (Inr (),
                     self\<lparr>database := db,
                          collections :=
                            AList.update collection_name (Collection collection_name)
                              (collections self)\<rparr>)))"

definition drop_collection ::
  "ChromaConnector \<Rightarrow> string \<Rightarrow> (error + unit) \<times> ChromaConnector" where
  "drop_collection self collection_name =
     (if client self = None then (Inl not_connected, self)
      else
        (case chroma_delete_collection collection_name (database self) of
           Inl e \<Rightarrow> (Inl e, self)
         | Inr db \<Rightarrow>
             (Inr (),
              self\<lparr>database := db,
                   collections := AList.delete collection_name (collections self)\<rparr>)))"

definition list_collections ::
  "ChromaConnector \<Rightarrow> (error + listed list) \<times> ChromaConnector" where
  "list_collections self =
     (case client self of
        None \<Rightarrow> (Inl not_connected, self)
      | Some c \<Rightarrow> (Inr (chroma_list_collections c (database self)), self))"

text \<open>
  \<open>get_collection\<close> (line 79), the helper that returns the cached handle of a collection
  and fetches or creates it first when it is not cached. It reads \<open>self.client\<close> without
  a check: on \<open>None\<close> the method call is an AttributeError.
\<close>

definition get_collection ::
  "ChromaConnector \<Rightarrow> string \<Rightarrow> (error + collection) \<times> ChromaConnector" where
  "get_collection self collection_name =
     (case map_of (collections self) collection_name of
        Some handle \<Rightarrow> (Inr handle, self)
      | None \<Rightarrow>
          (case client self of
             None \<Rightarrow> (Inl (AttributeError ''get_or_create_collection''), self)
           | Some c \<Rightarrow>
               (case chroma_get_or_create_collection c collection_name (database self) of
                  Inl e \<Rightarrow> (Inl e, self)
                | Inr db \<Rightarrow>
                    (Inr (Collection collection_name),
                     self\<lparr>database := db,
                          collections :=
                            AList.update collection_name (Collection collection_name)
                              (collections self)\<rparr>))))"

text \<open>
  Attribute lookup on a connector. The names the object has: the three instance
  attributes of \<open>__init__\<close> and the methods of the class (the abstract base class
  \<open>DBConnector\<close> declares a subset of the same method names). Reading any other name
  raises AttributeError.
\<close>

definition ChromaConnector_attributes :: "string list" where
  "ChromaConnector_attributes =
     [''persist_directory'', ''client'', ''collections'',
      ''__init__'', ''connect'', ''disconnect'', ''create_collection'', ''drop_collection'',
      ''list_collections'', ''get_collection'', ''add_to_collection'', ''search_similar'']"

text \<open>
  \<open>self.<name>(collection_name)\<close> where the caller goes on to use the result as a
  collection handle: \<open>get_collection\<close> is the one attribute that is such a helper.
\<close>

definition lookup_collection_helper ::
  "string \<Rightarrow> error + (ChromaConnector \<Rightarrow> string \<Rightarrow> (error + collection) \<times> ChromaConnector)" where
  "lookup_collection_helper name =
     (if name \<notin> set ChromaConnector_attributes then Inl (AttributeError name)
      else if name = ''get_collection'' then Inr get_collection
      else Inl (TypeError name))"

text \<open>
  \<open>self.<name>[collection_name]\<close> where the caller goes on to use the result as an
  expected dimension: no attribute of the object is a table of dimensions, and no
  statement of the class assigns one.
\<close>

definition lookup_dimension_table :: "string \<Rightarrow> error + (string \<times> nat) list" where
  "lookup_dimension_table name =
     (if name \<notin> set ChromaConnector_attributes then Inl (AttributeError name)
      else Inl (TypeError name))"

text \<open>
  \<open>add_to_collection\<close>. \<open>uuid4 i\<close> is the \<open>i\<close>-th random id drawn by the list
  comprehension of line 102.
\<close>

definition add_to_collection ::
  "(nat \<Rightarrow> string) \<Rightarrow> ChromaConnector \<Rightarrow> string \<Rightarrow> string list \<Rightarrow> real list list \<Rightarrow> dict list
   \<Rightarrow> (error + string list) \<times> ChromaConnector" where
  "add_to_collection uuid4 self collection_name chunks embeddings metadatas =
     (if client self = None then (Inl not_connected, self)
      else
        (case lookup_collection_helper ''_get_collection'' of
           Inl e \<Rightarrow> (Inl e, self)
         | Inr helper \<Rightarrow>
             (case helper self collection_name of
                (Inl e, self1) \<Rightarrow> (Inl e, self1)
              | (Inr (Collection target), self1) \<Rightarrow>
                  (let chunk_ids = map uuid4 [0..<length chunks]
                   in case chroma_add target embeddings chunks metadatas chunk_ids
                             (database self1) of
                        Inl e \<Rightarrow> (Inl e, self1)
                      | Inr db \<Rightarrow> (Inr chunk_ids, self1\<lparr>database := db\<rparr>)))))"

text \<open>
  \<open>search_similar\<close>: the result is the list of \<open>(id, 1 - distance, metadata)\<close>.
\<close>

definition search_similar ::
  "ChromaConnector \<Rightarrow> string \<Rightarrow> real list \<Rightarrow> nat
   \<Rightarrow> (error + (string \<times> real \<times> dict) list) \<times> ChromaConnector" where
  "search_similar self collection_name query_embedding k =
     (if client self = None then (Inl not_connected, self)
      else
        (case lookup_collection_helper ''_get_collection'' of
           Inl e \<Rightarrow> (Inl e, self)
         | Inr helper \<Rightarrow>
             (case helper self collection_name of
                (Inl e, self1) \<Rightarrow> (Inl e, self1)
              | (Inr (Collection target), self1) \<Rightarrow>
                  (case lookup_dimension_table ''_collection_dimensions'' of
                     Inl e \<Rightarrow> (Inl e, self1)
                   | Inr table \<Rightarrow>
                       (case map_of table collection_name of
                          None \<Rightarrow> (Inl (KeyError collection_name), self1)
                        | Some expected_dim \<Rightarrow>
                            if length query_embedding \<noteq> expected_dim
                            then (Inl (ValueError ''Query embedding has the wrong dimension''),
                                  self1)
                            else
                              (case chroma_query target query_embedding k (database self1) of
                                 Inl e \<Rightarrow> (Inl e, self1)
                               | Inr results \<Rightarrow>
                                   (Inr (map (\<lambda>t. (fst t, 1 - fst (snd t), snd (snd t)))
                                          (zip (fst results)
                                               (zip (fst (snd results)) (snd (snd results))))),
                                    self1)))))))"

section \<open>DocumentProcessor.add_metadata (processor/document_processor.py)\<close>

text \<open>
  \<open>add_metadata\<close> works on objects: a \<open>Document\<close> object holds a reference to its
  metadata \<open>dict\<close>, and \<open>doc.metadata.update(additional_metadata)\<close> writes into that
  dict. The heap maps references to dict objects and to Document objects; a record
  \<open>Document\<close> above is the value read through the references.
\<close>

type_synonym ref = nat

record DocumentObject =
  obj_content :: string
  obj_metadata :: ref
  obj_doc_id :: "string option"

record heap =
  dicts :: "ref \<Rightarrow> dict option"
  documents :: "ref \<Rightarrow> DocumentObject option"

definition load_document :: "heap \<Rightarrow> ref \<Rightarrow> Document option" where
  "load_document h r =
     (case documents h r of
        None \<Rightarrow> None
      | Some d \<Rightarrow>
          (case dicts h (obj_metadata d) of
             None \<Rightarrow> None
           | Some md \<Rightarrow> Some \<lparr>content = obj_content d, metadata = md, doc_id = obj_doc_id d\<rparr>))"

text \<open>
  The result is the reference returned and the heap afterwards; \<open>None\<close> stands for a
  reference to no object, which a Python caller cannot pass.
\<close>

definition add_metadata :: "heap \<Rightarrow> ref \<Rightarrow> ref \<Rightarrow> (ref \<times> heap) option" where
  "add_metadata h doc additional_metadata =
     (case documents h doc of
        None \<Rightarrow> None
      | Some d \<Rightarrow>
          (case dicts h (obj_metadata d) of
             None \<Rightarrow> None
           | Some md \<Rightarrow>
               (case dicts h additional_metadata of
                  None \<Rightarrow> None
                | Some extra \<Rightarrow>
                    Some (doc, h\<lparr>dicts := (dicts h)(obj_metadata d \<mapsto> dict_update md extra)\<rparr>))))"

text \<open>The caller's document, read through its reference after \<open>add_metadata\<close> returned.\<close>

definition document_after_add_metadata :: "heap \<Rightarrow> ref \<Rightarrow> ref \<Rightarrow> Document option" where
  "document_after_add_metadata h doc additional_metadata =
     (case add_metadata h doc additional_metadata of
        None \<Rightarrow> None
      | Some result \<Rightarrow> load_document (snd result) doc)"

section \<open>Concrete inputs\<close>

text \<open>The chunker \<open>TextChunker()\<close> builds from the defaults of \<open>__init__\<close>.\<close>

definition default_chunker :: TextChunker where
  "default_chunker =
     \<lparr>text_splitter = CharacterTextSplitter_new ''\<newline>\<newline>'' 256 20 len,
      add_start_index = True\<rparr>"

text \<open>The chunker of the scenario: separator of two newlines, chunk size 9, overlap 0.\<close>

definition scenario_chunker :: TextChunker where
  "scenario_chunker =
     \<lparr>text_splitter = CharacterTextSplitter_new ''\<newline>\<newline>'' 9 0 len,
      add_start_index = True\<rparr>"

definition scenario_document :: Document where
  "scenario_document =
     \<lparr>content = ''AAAA\<newline>\<newline>BBBB\<newline>\<newline>CCCC'', metadata = [], doc_id = None\<rparr>"

definition two_paragraphs :: Document where
  "two_paragraphs =
     \<lparr>content = ''AAAA\<newline>\<newline>BBBB'', metadata = [(''source'', PyStr ''a.txt'')],
      doc_id = Some ''doc''\<rparr>"

text \<open>A document that is itself a chunk: its metadata already has \<open>chunk_index\<close>.\<close>

definition rechunked_document :: Document where
  "rechunked_document =
     \<lparr>content = ''AAAA'', metadata = [(''chunk_index'', PyInt 7)], doc_id = None\<rparr>"

text \<open>The three chunks of the scenario's document at chunk size 9.\<close>

definition scenario_chunks :: "Document list" where
  "scenario_chunks =
     [\<lparr>content = ''AAAA'',
       metadata = [(''chunk_index'', PyInt 0), (''total_chunks'', PyInt 3),
                   (''chunk_start_index'', PyInt 0)], doc_id = None\<rparr>,
      \<lparr>content = ''BBBB'',
       metadata = [(''chunk_index'', PyInt 1), (''total_chunks'', PyInt 3),
                   (''chunk_start_index'', PyInt 6)], doc_id = None\<rparr>,
      \<lparr>content = ''CCCC'',
       metadata = [(''chunk_index'', PyInt 2), (''total_chunks'', PyInt 3),
                   (''chunk_start_index'', PyInt 12)], doc_id = None\<rparr>]"

text \<open>
  A client of an engine that lists collections by name and accepts the names of three
  characters and more: every version of the engine refuses a shorter name.
\<close>

definition three_or_more_characters :: "string \<Rightarrow> bool" where
  "three_or_more_characters name = (3 \<le> length name)"

definition example_client :: chroma_client where
  "example_client =
     \<lparr>client_path = ''db'', accepts_name = three_or_more_characters, lists_names = True\<rparr>"

text \<open>A connected store with one empty collection, and one that never connected.\<close>

definition connected_store :: ChromaConnector where
  "connected_store =
     \<lparr>persist_directory = ''db'', client = Some example_client,
      collections = [], database = [(''docs'', [])]\<rparr>"

definition fresh_store :: ChromaConnector where
  "fresh_store = ChromaConnector_init ''db'' [(''docs'', [])]"

definition example_uuid4 :: "nat \<Rightarrow> string" where
  "example_uuid4 i = ''uuid-'' @ string_of_nat i"

text \<open>
  A heap with one Document object (reference 0) whose metadata is the dict at
  reference 1, and the caller's additional metadata at reference 2.
\<close>

definition example_heap :: heap where
  "example_heap =
     \<lparr>dicts = [1 \<mapsto> [(''source'', PyStr ''a.txt'')], 2 \<mapsto> [(''lang'', PyStr ''en'')]],
      documents = [0 \<mapsto> \<lparr>obj_content = ''text'', obj_metadata = 1, obj_doc_id = None\<rparr>]\<rparr>"

section \<open>Properties\<close>

subsection \<open>Helper facts about the chunker\<close>

lemma dict_get_setitem:
  "dict_get (dict_setitem d k v) k' = (if k' = k then Some v else dict_get d k')"
  by (simp add: dict_get_def dict_setitem_def update_conv')

lemma chunk_document_index:
  "dict_get (metadata (chunk_document self document n ic)) ''chunk_index'' = Some (PyInt (int (fst ic)))"
  by (simp add: chunk_document_def dict_update_def dict_get_setitem Let_def)

lemma chunk_document_total:
  "dict_get (metadata (chunk_document self document n ic)) ''total_chunks'' = Some (PyInt (int n))"
  by (simp add: chunk_document_def dict_update_def dict_get_setitem Let_def)

lemma chunk_document_start_index:
  "add_start_index self \<Longrightarrow>
   dict_get (metadata (chunk_document self document n ic)) ''chunk_start_index''
     = Some (PyInt (str_find (content document) (snd ic)))"
  by (simp add: chunk_document_def dict_get_setitem Let_def)

lemma chunk_document_content:
  "content (chunk_document self document n ic) = snd ic"
  by (simp add: chunk_document_def Let_def)

lemma chunk_document_flag:
  "add_start_index s = add_start_index t \<Longrightarrow>
   chunk_document s document n ic = chunk_document t document n ic"
  by (simp add: chunk_document_def Let_def)

lemma chunk_document_text_splitter:
  "chunk_document (self\<lparr>text_splitter := t\<rparr>) = chunk_document self"
  by (intro ext) (rule chunk_document_flag, simp)

lemma assign_overrides_fields:
  "separator (assign_overrides s a b) = separator s"
  "private_chunk_size (assign_overrides s a b) = private_chunk_size s"
  "private_chunk_overlap (assign_overrides s a b) = private_chunk_overlap s"
  "length_function (assign_overrides s a b) = length_function s"
  "chunk_size (assign_overrides s a b) = (case a of None \<Rightarrow> chunk_size s | Some v \<Rightarrow> Some v)"
  "chunk_overlap (assign_overrides s a b) = (case b of None \<Rightarrow> chunk_overlap s | Some v \<Rightarrow> Some v)"
  by (simp_all add: assign_overrides_def Let_def split: option.split)

lemma assign_overrides_as_update:
  "assign_overrides s a b
     = s\<lparr>chunk_size := (case a of None \<Rightarrow> chunk_size s | Some v \<Rightarrow> Some v),
         chunk_overlap := (case b of None \<Rightarrow> chunk_overlap s | Some v \<Rightarrow> Some v)\<rparr>"
  by (simp add: assign_overrides_def Let_def split: option.split)

lemma ignores_assign_overrides:
  "ignores_public_attributes sp \<Longrightarrow> sp (assign_overrides s a b) = sp s"
  unfolding assign_overrides_as_update by (simp add: ignores_public_attributes_def)

lemma snd_create_chunks:
  "snd (create_chunks sp self document a b)
     = self\<lparr>text_splitter := assign_overrides (text_splitter self) a b\<rparr>"
  by (simp add: create_chunks_def Let_def split: sum.split)

lemma fst_create_chunks:
  "fst (create_chunks sp self document a b)
     = map_sum id
         (\<lambda>texts. map (chunk_document self document (length texts)) (enumerate 0 texts))
         (sp (assign_overrides (text_splitter self) a b) (content document))"
  by (simp add: create_chunks_def Let_def chunk_document_text_splitter split: sum.split)

lemma chunk_texts_create_chunks:
  "chunk_texts (fst (create_chunks sp self document a b))
     = sp (assign_overrides (text_splitter self) a b) (content document)"
proof (cases "sp (assign_overrides (text_splitter self) a b) (content document)")
  case (Inl e)
  then show ?thesis by (simp add: fst_create_chunks chunk_texts_def)
next
  case (Inr texts)
  have "map content (map (chunk_document s document n) (enumerate 0 texts)) = texts" for s n
    by (simp add: comp_def chunk_document_content)
  with Inr show ?thesis by (simp add: fst_create_chunks chunk_texts_def)
qed

lemma chunk_index_create_chunks:
  "chunk_values ''chunk_index'' (fst (create_chunks sp self document a b))
     = map_sum id (\<lambda>texts. map (\<lambda>i. Some (PyInt (int i))) [0..<length texts])
         (sp (assign_overrides (text_splitter self) a b) (content document))"
proof (cases "sp (assign_overrides (text_splitter self) a b) (content document)")
  case (Inl e)
  then show ?thesis by (simp add: fst_create_chunks chunk_values_def)
next
  case (Inr texts)
  have "map (\<lambda>c. dict_get (metadata c) ''chunk_index'')
          (map (chunk_document s document n) (enumerate 0 texts))
        = map (\<lambda>i. Some (PyInt (int i))) [0..<length texts]" for s n
    by (rule nth_equalityI) (simp_all add: chunk_document_index nth_enumerate_eq)
  with Inr show ?thesis by (simp add: fst_create_chunks chunk_values_def)
qed

lemma total_chunks_create_chunks:
  "chunk_values ''total_chunks'' (fst (create_chunks sp self document a b))
     = map_sum id (\<lambda>texts. map (\<lambda>i. Some (PyInt (int (length texts)))) texts)
         (sp (assign_overrides (text_splitter self) a b) (content document))"
proof (cases "sp (assign_overrides (text_splitter self) a b) (content document)")
  case (Inl e)
  then show ?thesis by (simp add: fst_create_chunks chunk_values_def)
next
  case (Inr texts)
  have "map (\<lambda>c. dict_get (metadata c) ''total_chunks'')
          (map (chunk_document s document n) (enumerate 0 texts))
        = map (\<lambda>i. Some (PyInt (int n))) texts" for s n
    by (rule nth_equalityI) (simp_all add: chunk_document_total)
  with Inr show ?thesis by (simp add: fst_create_chunks chunk_values_def)
qed

subsection \<open>The modelled split function\<close>

lemma joined_length_public:
  "joined_length (s\<lparr>chunk_size := a, chunk_overlap := b\<rparr>) segs = joined_length s segs"
  by (simp add: joined_length_def)

lemma carry_back_public:
  "carry_back (s\<lparr>chunk_size := a, chunk_overlap := b\<rparr>) cur d = carry_back s cur d"
  by (induction cur) (simp_all add: joined_length_public)

lemma merge_segments_public:
  "merge_segments (s\<lparr>chunk_size := a, chunk_overlap := b\<rparr>) segs cur
     = merge_segments s segs cur"
  by (induction segs arbitrary: cur) (simp_all add: joined_length_public carry_back_public)

lemma split_text_ignores_public_attributes: "ignores_public_attributes split_text"
  by (simp add: ignores_public_attributes_def fun_eq_iff split_text_def merge_segments_public)

lemma split_size_9:
  "split_text (CharacterTextSplitter_new ''\<newline>\<newline>'' 9 0 len)
     ''AAAA\<newline>\<newline>BBBB\<newline>\<newline>CCCC'' = Inr [''AAAA'', ''BBBB'', ''CCCC'']"
  by (simp add: CharacterTextSplitter_new_def split_text_def segments_def joined_length_def
        len_def)

lemma split_size_10:
  "split_text (CharacterTextSplitter_new ''\<newline>\<newline>'' 10 0 len)
     ''AAAA\<newline>\<newline>BBBB\<newline>\<newline>CCCC'' = Inr [''AAAA\<newline>\<newline>BBBB'', ''CCCC'']"
  by (simp add: CharacterTextSplitter_new_def split_text_def segments_def joined_length_def
        len_def)

lemma split_default:
  "split_text (CharacterTextSplitter_new ''\<newline>\<newline>'' 256 20 len) ''AAAA\<newline>\<newline>BBBB''
     = Inr [''AAAA\<newline>\<newline>BBBB'']"
  "split_text (CharacterTextSplitter_new ''\<newline>\<newline>'' 256 20 len) ''AAAA'' = Inr [''AAAA'']"
  by (simp_all add: CharacterTextSplitter_new_def split_text_def segments_def
        joined_length_def len_def)

lemma split_text_after_overrides:
  "split_text (assign_overrides s a b) text = split_text s text"
  using split_text_ignores_public_attributes by (simp add: ignores_assign_overrides)

subsection \<open>The scenario\<close>

text \<open>
  Claim C10, as amended. For a document whose content is \<open>AAAA\n\nBBBB\n\nCCCC\<close>, chunking
  with separator \<open>\n\n\<close>, chunk size 9 and overlap 0 returns exactly the three chunks
  \<open>AAAA\<close>, \<open>BBBB\<close>, \<open>CCCC\<close>, with \<open>chunk_index\<close> 0, 1, 2 and \<open>total_chunks\<close> 3 in each: the
  first two segments joined by the separator are 10 characters long, more than 9. With
  chunk size 10 the result is the two chunks \<open>AAAA\n\nBBBB\<close> and \<open>CCCC\<close>, with
  \<open>chunk_index\<close> 0, 1 and \<open>total_chunks\<close> 2. This holds whatever the document's metadata
  and id and the chunker's \<open>add_start_index\<close> flag are.
\<close>

theorem scenario_three_chunks:
  "chunk_texts (fst (create_chunks split_text
      \<lparr>text_splitter = CharacterTextSplitter_new ''\<newline>\<newline>'' 9 0 len, add_start_index = flag\<rparr>
      \<lparr>content = ''AAAA\<newline>\<newline>BBBB\<newline>\<newline>CCCC'', metadata = md, doc_id = ident\<rparr> None None))
     = Inr [''AAAA'', ''BBBB'', ''CCCC'']
   \<and> chunk_values ''chunk_index'' (fst (create_chunks split_text
      \<lparr>text_splitter = CharacterTextSplitter_new ''\<newline>\<newline>'' 9 0 len, add_start_index = flag\<rparr>
      \<lparr>content = ''AAAA\<newline>\<newline>BBBB\<newline>\<newline>CCCC'', metadata = md, doc_id = ident\<rparr> None None))
     = Inr [Some (PyInt 0), Some (PyInt 1), Some (PyInt 2)]
   \<and> chunk_values ''total_chunks'' (fst (create_chunks split_text
      \<lparr>text_splitter = CharacterTextSplitter_new ''\<newline>\<newline>'' 9 0 len, add_start_index = flag\<rparr>
      \<lparr>content = ''AAAA\<newline>\<newline>BBBB\<newline>\<newline>CCCC'', metadata = md, doc_id = ident\<rparr> None None))
     = Inr [Some (PyInt 3), Some (PyInt 3), Some (PyInt 3)]
   \<and> chunk_texts (fst (create_chunks split_text
      \<lparr>text_splitter = CharacterTextSplitter_new ''\<newline>\<newline>'' 10 0 len, add_start_index = flag\<rparr>
      \<lparr>content = ''AAAA\<newline>\<newline>BBBB\<newline>\<newline>CCCC'', metadata = md, doc_id = ident\<rparr> None None))
     = Inr [''AAAA\<newline>\<newline>BBBB'', ''CCCC'']
   \<and> chunk_values ''chunk_index'' (fst (create_chunks split_text
      \<lparr>text_splitter = CharacterTextSplitter_new ''\<newline>\<newline>'' 10 0 len, add_start_index = flag\<rparr>
      \<lparr>content = ''AAAA\<newline>\<newline>BBBB\<newline>\<newline>CCCC'', metadata = md, doc_id = ident\<rparr> None None))
     = Inr [Some (PyInt 0), Some (PyInt 1)]
   \<and> chunk_values ''total_chunks'' (fst (create_chunks split_text
      \<lparr>text_splitter = CharacterTextSplitter_new ''\<newline>\<newline>'' 10 0 len, add_start_index = flag\<rparr>
      \<lparr>content = ''AAAA\<newline>\<newline>BBBB\<newline>\<newline>CCCC'', metadata = md, doc_id = ident\<rparr> None None))
     = Inr [Some (PyInt 2), Some (PyInt 2)]"
  by (simp add: chunk_texts_create_chunks chunk_index_create_chunks total_chunks_create_chunks
        split_text_after_overrides split_size_9 split_size_10 upt_rec)

text \<open>
  Claim C10 as stated fails: with chunk size 9 the scenario's document gives three
  chunks, each with \<open>total_chunks\<close> 3, not the two chunks of the claim.
\<close>

theorem scenario_counterexample:
  "chunk_texts (fst (create_chunks split_text scenario_chunker scenario_document None None))
     = Inr [''AAAA'', ''BBBB'', ''CCCC'']
   \<and> chunk_values ''total_chunks''
        (fst (create_chunks split_text scenario_chunker scenario_document None None))
     = Inr [Some (PyInt 3), Some (PyInt 3), Some (PyInt 3)]"
  by (simp add: chunk_texts_create_chunks total_chunks_create_chunks split_text_after_overrides
        scenario_chunker_def scenario_document_def split_size_9)

subsection \<open>Per-call overrides\<close>




text \<open>
  Claim C5, as amended. \<open>TextChunker\<close> validates nothing itself. Construction hands the
  chunk size and overlap to the splitter's constructor and fails exactly when that
  constructor fails, with its error. \<open>create_chunks\<close> does not validate a per-call
  override: whatever values are passed, also with \<open>chunk_overlap >= chunk_size\<close> or
  \<open>chunk_size <= 0\<close>, they are assigned to the splitter object, and the call fails exactly
  when the splitter's \<open>split_text\<close>, called on that object, fails, with its error. This
  holds for every constructor and every split function.
\<close>

theorem configuration_not_validated_by_chunker:
  "(TextChunker_init constructor sz overlap sep lf flag = Inl e)
      = (constructor sep sz overlap lf = Inl e)
   \<and> (fst (create_chunks sp self document a b) = Inl e')
      = (sp (text_splitter (snd (create_chunks sp self document a b))) (content document)
           = Inl e')
   \<and> chunk_size (text_splitter (snd (create_chunks sp self document (Some v) b))) = Some v
   \<and> chunk_overlap (text_splitter (snd (create_chunks sp self document a (Some w)))) = Some w"
proof -
  have ctor: "(TextChunker_init constructor sz overlap sep lf flag = Inl e)
      = (constructor sep sz overlap lf = Inl e)"
    by (cases "constructor sep sz overlap lf") (simp_all add: TextChunker_init_def)
  have call: "(fst (create_chunks sp self document a b) = Inl e')
      = (sp (text_splitter (snd (create_chunks sp self document a b))) (content document)
           = Inl e')"
    by (cases "sp (assign_overrides (text_splitter self) a b) (content document)")
       (simp_all add: fst_create_chunks snd_create_chunks)
  show ?thesis
    using ctor call by (simp add: snd_create_chunks assign_overrides_fields)
qed

text \<open>
  Claim C5 as stated fails for per-call overrides: a call with chunk size 5 and overlap
  10, and a call with chunk size 0, both return the document's one chunk instead of
  failing with InvalidConfiguration.
\<close>

theorem invalid_override_counterexample:
  "chunk_texts (fst (create_chunks split_text default_chunker two_paragraphs (Some 5) (Some 10)))
     = Inr [''AAAA\<newline>\<newline>BBBB'']
   \<and> chunk_texts (fst (create_chunks split_text default_chunker two_paragraphs (Some 0) None))
     = Inr [''AAAA\<newline>\<newline>BBBB'']"
  by (simp add: chunk_texts_create_chunks split_text_after_overrides default_chunker_def
        two_paragraphs_def split_default)

subsection \<open>Chunk metadata\<close>

lemma keys_setitem: "fst ` set (dict_setitem d k v) = insert k (fst ` set d)"
  by (simp add: dict_setitem_def dom_update)

lemma chunk_document_inherits:
  "k \<noteq> ''chunk_index'' \<Longrightarrow> k \<noteq> ''total_chunks'' \<Longrightarrow>
   (add_start_index self \<Longrightarrow> k \<noteq> ''chunk_start_index'') \<Longrightarrow>
   dict_get (metadata (chunk_document self document n ic)) k = dict_get (metadata document) k"
  by (auto simp add: chunk_document_def dict_update_def dict_get_setitem Let_def)

lemma chunk_document_keys:
  "fst ` set (metadata (chunk_document self document n ic)) =
     fst ` set (metadata document) \<union> {''chunk_index'', ''total_chunks''}
       \<union> (if add_start_index self then {''chunk_start_index''} else {})"
  by (auto simp add: chunk_document_def dict_update_def keys_setitem Let_def)

lemma create_chunks_result:
  "create_chunks sp self document a b = (Inr chunks, self') \<Longrightarrow>
   \<exists>texts. chunks = map (chunk_document self' document (length texts)) (enumerate 0 texts)"
  by (auto simp add: create_chunks_def Let_def split: sum.splits)

text \<open>
  Claim C4, as amended. For every document, every chunker and every splitter function,
  when \<open>create_chunks\<close> returns a list: the \<open>chunk_index\<close> values along the list are
  exactly 0, 1, ... up to the length of the list minus one, in order; each chunk's
  \<open>total_chunks\<close> is the length of the list; each chunk's metadata agrees with the
  parent's on every key other than \<open>chunk_index\<close>, \<open>total_chunks\<close> and, when the chunker
  adds start indices, \<open>chunk_start_index\<close>; and the keys of a chunk's metadata are the
  parent's keys and these chunk-specific keys. When the chunker adds start indices, a
  chunk's \<open>chunk_start_index\<close> is the index of the first occurrence of the chunk's text in
  the parent's content (-1 when there is none).
\<close>

theorem create_chunks_metadata_contract:
  assumes "create_chunks sp self document a b = (Inr chunks, self')"
  shows "map (\<lambda>c. dict_get (metadata c) ''chunk_index'') chunks
           = map (\<lambda>i. Some (PyInt (int i))) [0..<length chunks]
       \<and> (\<forall>c \<in> set chunks.
            dict_get (metadata c) ''total_chunks'' = Some (PyInt (int (length chunks)))
          \<and> (\<forall>k. k \<noteq> ''chunk_index'' \<and> k \<noteq> ''total_chunks''
                   \<and> (add_start_index self \<longrightarrow> k \<noteq> ''chunk_start_index'')
                 \<longrightarrow> dict_get (metadata c) k = dict_get (metadata document) k)
          \<and> fst ` set (metadata c) =
               fst ` set (metadata document) \<union> {''chunk_index'', ''total_chunks''}
                 \<union> (if add_start_index self then {''chunk_start_index''} else {})
          \<and> (add_start_index self \<longrightarrow>
                dict_get (metadata c) ''chunk_start_index''
                  = Some (PyInt (str_find (content document) (content c)))))"
proof -
  from assms obtain texts where
    chunks: "chunks = map (chunk_document self' document (length texts)) (enumerate 0 texts)"
    using create_chunks_result by blast
  have "self' = snd (create_chunks sp self document a b)"
    using assms by simp
  then have flag: "add_start_index self' = add_start_index self"
    by (simp add: snd_create_chunks)
  have len: "length chunks = length texts"
    by (simp add: chunks)
  have idx: "map (\<lambda>c. dict_get (metadata c) ''chunk_index'') chunks
               = map (\<lambda>i. Some (PyInt (int i))) [0..<length chunks]"
    unfolding len unfolding chunks
    by (rule nth_equalityI) (simp_all add: chunk_document_index nth_enumerate_eq)
  have each: "dict_get (metadata c) ''total_chunks'' = Some (PyInt (int (length chunks)))
          \<and> (\<forall>k. k \<noteq> ''chunk_index'' \<and> k \<noteq> ''total_chunks''
                   \<and> (add_start_index self \<longrightarrow> k \<noteq> ''chunk_start_index'')
                 \<longrightarrow> dict_get (metadata c) k = dict_get (metadata document) k)
          \<and> fst ` set (metadata c) =
               fst ` set (metadata document) \<union> {''chunk_index'', ''total_chunks''}
                 \<union> (if add_start_index self then {''chunk_start_index''} else {})
          \<and> (add_start_index self \<longrightarrow>
                dict_get (metadata c) ''chunk_start_index''
                  = Some (PyInt (str_find (content document) (content c))))"
    if "c \<in> set chunks" for c
  proof -
    from that obtain ic where c: "c = chunk_document self' document (length texts) ic"
      by (auto simp add: chunks)
    have t1: "dict_get (metadata c) ''total_chunks'' = Some (PyInt (int (length chunks)))"
      by (simp only: c len chunk_document_total)
    have t2: "dict_get (metadata c) k = dict_get (metadata document) k"
      if "k \<noteq> ''chunk_index'' \<and> k \<noteq> ''total_chunks''
                   \<and> (add_start_index self \<longrightarrow> k \<noteq> ''chunk_start_index'')" for k
      unfolding c by (rule chunk_document_inherits) (use that flag in auto)
    have t3: "fst ` set (metadata c) =
               fst ` set (metadata document) \<union> {''chunk_index'', ''total_chunks''}
                 \<union> (if add_start_index self then {''chunk_start_index''} else {})"
      by (simp only: c chunk_document_keys flag)
    have t4: "add_start_index self \<longrightarrow>
                dict_get (metadata c) ''chunk_start_index''
                  = Some (PyInt (str_find (content document) (content c)))"
      unfolding c by (simp add: chunk_document_start_index chunk_document_content flag)
    have t2': "\<forall>k. k \<noteq> ''chunk_index'' \<and> k \<noteq> ''total_chunks''
                   \<and> (add_start_index self \<longrightarrow> k \<noteq> ''chunk_start_index'')
                 \<longrightarrow> dict_get (metadata c) k = dict_get (metadata document) k"
      by (rule allI, rule impI, erule t2)
    show ?thesis
      by (intro conjI) (rule t1, rule t2', rule t3, rule t4)
  qed
  show ?thesis
    by (rule conjI [OF idx]) (rule ballI, erule each)
qed

lemma scenario_run:
  "create_chunks split_text scenario_chunker scenario_document None None
     = (Inr scenario_chunks, scenario_chunker)"
  unfolding scenario_chunker_def scenario_document_def scenario_chunks_def
  apply (simp add: create_chunks_def assign_overrides_def split_size_9 [unfolded CharacterTextSplitter_new_def]
           CharacterTextSplitter_new_def)
  apply (simp add: chunk_document_def dict_update_def dict_setitem_def str_find_def)
  done

text \<open>
  The scenario's document and chunker satisfy the hypothesis of the theorem for C4.
\<close>

theorem create_chunks_metadata_contract_witness:
  "create_chunks split_text scenario_chunker scenario_document None None
     = (Inr scenario_chunks, scenario_chunker)
   \<and> chunk_values ''chunk_index'' (Inr scenario_chunks)
       = Inr [Some (PyInt 0), Some (PyInt 1), Some (PyInt 2)]
   \<and> chunk_values ''total_chunks'' (Inr scenario_chunks)
       = Inr [Some (PyInt 3), Some (PyInt 3), Some (PyInt 3)]"
  using create_chunks_metadata_contract [OF scenario_run] scenario_run
  by (simp add: chunk_values_def scenario_chunks_def dict_get_def)

text \<open>
  Claim C4 as stated fails for a parent whose metadata already has one of the
  chunk-specific keys: the pair \<open>chunk_index = 7\<close> of the parent is not in the chunk,
  whose \<open>chunk_index\<close> is 0.
\<close>

theorem parent_key_overwritten_counterexample:
  "dict_get (metadata rechunked_document) ''chunk_index'' = Some (PyInt 7)
   \<and> chunk_values ''chunk_index''
        (fst (create_chunks split_text default_chunker rechunked_document None None))
       = Inr [Some (PyInt 0)]"
  by (simp add: chunk_index_create_chunks split_text_after_overrides default_chunker_def
        rechunked_document_def split_default dict_get_def)

subsection \<open>The connector\<close>

lemma lookup_missing_helper:
  "lookup_collection_helper ''_get_collection'' = Inl (AttributeError ''_get_collection'')"
  by (simp add: lookup_collection_helper_def ChromaConnector_attributes_def)

lemma add_to_collection_connected:
  "client self \<noteq> None \<Longrightarrow>
   add_to_collection uuid4 self name chunks embeddings metadatas
     = (Inl (AttributeError ''_get_collection''), self)"
  by (cases "client self") (simp_all add: add_to_collection_def lookup_missing_helper)

lemma search_similar_connected:
  "client self \<noteq> None \<Longrightarrow>
   search_similar self name query k = (Inl (AttributeError ''_get_collection''), self)"
  by (cases "client self") (simp_all add: search_similar_def lookup_missing_helper)

lemma connected_store_client: "client connected_store \<noteq> None"
  by (simp add: connected_store_def)



text \<open>
  Claim C8. On a connector that has no client, each of \<open>create_collection\<close>,
  \<open>drop_collection\<close>, \<open>list_collections\<close>, \<open>add_to_collection\<close> and \<open>search_similar\<close> fails
  with the ConnectionError "Not connected to ChromaDB" (the spec's NotConnected) and
  returns the connector as it was. A connector has no client when it is new, after
  \<open>disconnect\<close>, and after a \<open>connect\<close> that raised, which leaves the connector as it was.
\<close>

theorem not_connected_operations_fail:
  assumes "client self = None"
  shows "create_collection self name = (Inl not_connected, self)
       \<and> drop_collection self name = (Inl not_connected, self)
       \<and> list_collections self = (Inl not_connected, self)
       \<and> add_to_collection uuid4 self name chunks embeddings metadatas = (Inl not_connected, self)
       \<and> search_similar self name query k = (Inl not_connected, self)
       \<and> client (disconnect other) = None
       \<and> client (ChromaConnector_init directory db) = None
       \<and> connect (Inl e) self = (Inl e, self)
       \<and> not_connected = ConnectionError ''Not connected to ChromaDB''"
  using assms
  by (simp add: create_collection_def drop_collection_def list_collections_def
        add_to_collection_def search_similar_def disconnect_def ChromaConnector_init_def
        connect_def not_connected_def)

text \<open>
  A new connector and a disconnected one have no client, and the operations fail on them.
\<close>

theorem not_connected_operations_fail_witness:
  "client fresh_store = None
   \<and> create_collection fresh_store ''x'' = (Inl not_connected, fresh_store)
   \<and> add_to_collection example_uuid4 fresh_store ''docs'' [''a''] [[1]] [[]]
       = (Inl not_connected, fresh_store)
   \<and> search_similar (disconnect connected_store) ''docs'' [1] 5
       = (Inl not_connected, disconnect connected_store)"
proof -
  have a: "client fresh_store = None"
    by (simp add: fresh_store_def ChromaConnector_init_def)
  have b: "client (disconnect connected_store) = None"
    by (simp add: disconnect_def)
  show ?thesis
    using not_connected_operations_fail [OF a, of "''x''"]
          not_connected_operations_fail [OF a, of "''docs''" example_uuid4 "[''a'']" "[[1]]" "[[]]"]
          not_connected_operations_fail [OF b, of "''docs''" _ _ _ _ "[1]" 5]
          a
    by simp
qed




text \<open>
  Claim C6 describes what the code should do, and the code does not: on a connected
  store, a call of \<open>add_to_collection\<close> with two chunks and one embedding raises
  AttributeError at \<open>self._get_collection\<close>, not a ValidationError. The engine's \<open>add\<close>,
  which the call never reaches, refuses the same sequences with a ValidationError.
\<close>

theorem mismatch_raises_attribute_error:
  "add_to_collection example_uuid4 connected_store ''docs'' [''a'', ''b''] [[1]] [[], []]
     = (Inl (AttributeError ''_get_collection''), connected_store)
   \<and> chroma_add ''docs'' [[1]] [''a'', ''b''] [[], []] (map example_uuid4 [0..<2])
        (database connected_store)
     = Inl ValidationError"
  by (simp add: add_to_collection_connected connected_store_client chroma_add_def
        connected_store_def)

text \<open>
  The error of the call at that input is the AttributeError, and the connector is as
  it was.
\<close>

theorem mismatch_raises_attribute_error_witness:
  "fst (add_to_collection example_uuid4 connected_store ''docs'' [''a'', ''b''] [[1]] [[], []])
     = Inl (AttributeError ''_get_collection'')
   \<and> snd (add_to_collection example_uuid4 connected_store ''docs'' [''a'', ''b''] [[1]] [[], []])
     = connected_store"
  using mismatch_raises_attribute_error by simp

text \<open>
  Claim C2 describes what the code should do, and the code does not: on a connected
  store, adding one chunk with one embedding of the right width and one metadata
  mapping raises AttributeError, because \<open>add_to_collection\<close> calls \<open>self._get_collection\<close>
  and the class defines \<open>get_collection\<close>. Nothing is stored and no id is returned.
\<close>

theorem add_to_collection_attribute_error:
  "add_to_collection example_uuid4 connected_store ''docs'' [''a''] [[1]] [[]]
     = (Inl (AttributeError ''_get_collection''), connected_store)"
  by (simp add: add_to_collection_connected connected_store_client)

text \<open>
  Claim C3 describes what the code should do, and the code does not: on a connected
  store, \<open>search_similar\<close> raises AttributeError at \<open>self._get_collection\<close> whatever the
  width of the query, and the table \<open>self._collection_dimensions\<close> it would read next is
  an attribute the object never has.
\<close>

theorem search_similar_attribute_error:
  "search_similar connected_store ''docs'' [1, 2] 5
     = (Inl (AttributeError ''_get_collection''), connected_store)
   \<and> lookup_dimension_table ''_collection_dimensions''
     = Inl (AttributeError ''_collection_dimensions'')"
  by (simp add: search_similar_connected connected_store_client lookup_dimension_table_def
        ChromaConnector_attributes_def)

subsection \<open>Metadata merge\<close>

text \<open>
  Claim C9, as amended. \<open>add_metadata\<close> returns the caller's own Document object, not a
  copy, and merges the additional metadata into that document's own metadata dict in
  place: read through the same reference afterwards, the document has the same content
  and id and the metadata updated with the additional mapping. No Document object's
  fields change (the content is never mutated), no other dict changes, and the mapping
  the caller passed is unchanged when it is a dict other than the document's own.
\<close>

theorem add_metadata_updates_in_place:
  assumes "add_metadata h doc additional_metadata = Some (r, h')"
  shows "r = doc
       \<and> documents h' = documents h
       \<and> (\<exists>d md extra.
             documents h doc = Some d
           \<and> dicts h (obj_metadata d) = Some md
           \<and> dicts h additional_metadata = Some extra
           \<and> dicts h' = (dicts h)(obj_metadata d \<mapsto> dict_update md extra)
           \<and> load_document h doc
               = Some \<lparr>content = obj_content d, metadata = md, doc_id = obj_doc_id d\<rparr>
           \<and> load_document h' doc
               = Some \<lparr>content = obj_content d, metadata = dict_update md extra,
                       doc_id = obj_doc_id d\<rparr>
           \<and> (additional_metadata \<noteq> obj_metadata d
                \<longrightarrow> dicts h' additional_metadata = Some extra))"
proof -
  from assms obtain d where d: "documents h doc = Some d"
    by (cases "documents h doc") (simp_all add: add_metadata_def)
  from assms d obtain md where md: "dicts h (obj_metadata d) = Some md"
    by (cases "dicts h (obj_metadata d)") (simp_all add: add_metadata_def)
  from assms d md obtain extra where extra: "dicts h additional_metadata = Some extra"
    by (cases "dicts h additional_metadata") (simp_all add: add_metadata_def)
  from assms d md extra have r: "r = doc"
    and h': "h' = h\<lparr>dicts := (dicts h)(obj_metadata d \<mapsto> dict_update md extra)\<rparr>"
    by (simp_all add: add_metadata_def)
  have docs: "documents h' = documents h"
    by (simp add: h')
  have before: "load_document h doc
      = Some \<lparr>content = obj_content d, metadata = md, doc_id = obj_doc_id d\<rparr>"
    by (simp add: load_document_def d md)
  have after: "load_document h' doc
      = Some \<lparr>content = obj_content d, metadata = dict_update md extra, doc_id = obj_doc_id d\<rparr>"
    by (simp add: load_document_def h' d)
  have other: "additional_metadata \<noteq> obj_metadata d
                \<longrightarrow> dicts h' additional_metadata = Some extra"
    by (simp add: h' extra)
  have ds: "dicts h' = (dicts h)(obj_metadata d \<mapsto> dict_update md extra)"
    by (simp add: h')
  show ?thesis
    using r docs d md extra ds before after other by (intro conjI exI) assumption+
qed

lemma example_add_metadata:
  "add_metadata example_heap 0 2
     = Some (0, example_heap\<lparr>dicts := (dicts example_heap)
                 (1 \<mapsto> [(''source'', PyStr ''a.txt''), (''lang'', PyStr ''en'')])\<rparr>)"
  by (simp add: add_metadata_def example_heap_def dict_update_def dict_setitem_def)

text \<open>
  The example heap satisfies the hypothesis of the theorem for C9.
\<close>

theorem add_metadata_updates_in_place_witness:
  "add_metadata example_heap 0 2
     = Some (0, example_heap\<lparr>dicts := (dicts example_heap)
                 (1 \<mapsto> [(''source'', PyStr ''a.txt''), (''lang'', PyStr ''en'')])\<rparr>)
   \<and> documents (example_heap\<lparr>dicts := (dicts example_heap)
                 (1 \<mapsto> [(''source'', PyStr ''a.txt''), (''lang'', PyStr ''en'')])\<rparr>)
       = documents example_heap"
  using add_metadata_updates_in_place [OF example_add_metadata] example_add_metadata
  by simp

text \<open>
  Claim C9 as stated fails: \<open>add_metadata\<close> returns the reference it was given, and the
  caller's document, which had the one key \<open>source\<close>, has the key \<open>lang\<close> as well
  afterwards.
\<close>

theorem add_metadata_mutates_counterexample:
  "load_document example_heap 0
     = Some \<lparr>content = ''text'', metadata = [(''source'', PyStr ''a.txt'')], doc_id = None\<rparr>
   \<and> map_option fst (add_metadata example_heap 0 2) = Some 0
   \<and> document_after_add_metadata example_heap 0 2
     = Some \<lparr>content = ''text'',
             metadata = [(''source'', PyStr ''a.txt''), (''lang'', PyStr ''en'')],
             doc_id = None\<rparr>"
  apply (simp add: document_after_add_metadata_def example_add_metadata)
  apply (simp add: load_document_def example_heap_def)
  done

end
